theory Spec2Isabelle
  imports Main
begin

section \<open>Python values and exceptions\<close>

text \<open>
  The module \<^verbatim>\<open>src/model/endpoint_serving.py\<close> consists of three handlers,
  \<^verbatim>\<open>input_fn\<close>, \<^verbatim>\<open>predict_fn\<close> and \<^verbatim>\<open>output_fn\<close>. The first one calls
  \<^verbatim>\<open>json.loads\<close> and \<^verbatim>\<open>torch.tensor\<close>; both library calls are modelled below on the
  Python values that a JSON document can denote.

  A Python \<^verbatim>\<open>str\<close> is a list of code points (integers). A Python \<^verbatim>\<open>float\<close> is an IEEE double; its
  bits are not modelled: a float is represented by the way it was obtained, either
  \<^verbatim>\<open>float(text)\<close> for a decimal literal, one of the three constants of the JSON decoder,
  or \<^verbatim>\<open>float(n)\<close> for an integer \<open>n\<close>. Two floats that are equal in this representation
  are the same double (the converse is not claimed and never used).
\<close>

type_synonym pystr = "int list"

datatype pyfloat =
    FloatLiteral string
  | NaN
  | PosInf
  | NegInf
  | FloatOfInt int

datatype pyval =
    PyNone
  | PyBool bool
  | PyInt int
  | PyFloat pyfloat
  | PyStr pystr
  | PyList "pyval list"
  | PyDict "(pystr \<times> pyval) list"

text \<open>
  The exceptions the two library calls and the subscript raise. \<open>KeyError\<close> carries the
  missing key. Messages and positions are not modelled.
\<close>

datatype exn =
    JSONDecodeError
  | KeyError pystr
  | TypeError
  | ValueError
  | OverflowError

definition str :: "string \<Rightarrow> pystr" where
  "str s = map of_char s"

section \<open>\<^verbatim>\<open>json.loads\<close> on a \<^verbatim>\<open>str\<close>\<close>

text \<open>
  The decoder of the standard library (\<^verbatim>\<open>json/decoder.py\<close>, \<^verbatim>\<open>json/scanner.py\<close>) with its
  default arguments: strict mode, no hooks, \<^verbatim>\<open>parse_float = float\<close>, \<^verbatim>\<open>parse_int = int\<close>,
  and \<^verbatim>\<open>parse_constant\<close> accepting \<^verbatim>\<open>NaN\<close>, \<^verbatim>\<open>Infinity\<close> and \<^verbatim>\<open>-Infinity\<close>. Every
  failure of the decoder is a \<open>JSONDecodeError\<close>. The request body is a \<^verbatim>\<open>str\<close> of
  characters below 256 (a body of bytes is not modelled). Limits of the interpreter
  (recursion depth, memory, the digit limit of \<^verbatim>\<open>int(text)\<close>) are outside the model:
  the statements below are about what the decoder returns.

  The decoder is modelled in two passes that accept the same documents and build the
  same values as the recursive scanner: the scalars and the punctuation are read first
  (white space may stand between any two of them and nowhere else), then the nesting is
  checked with an explicit stack.
\<close>

definition WHITESPACE :: "char \<Rightarrow> bool" where
  "WHITESPACE c = (c = CHR '' '' \<or> c = CHR 0x09 \<or> c = CHR 0x0A \<or> c = CHR 0x0D)"

definition is_digit :: "char \<Rightarrow> bool" where
  "is_digit c = (c \<in> set ''0123456789'')"

definition digit_val :: "char \<Rightarrow> int" where
  "digit_val c = of_char c - 48"

definition is_hexdigit :: "char \<Rightarrow> bool" where
  "is_hexdigit c = (c \<in> set ''0123456789abcdefABCDEF'')"

definition hex_val :: "char \<Rightarrow> int" where
  "hex_val c =
     (if is_digit c then of_char c - 48
      else if c \<in> set ''abcdef'' then of_char c - 87
      else of_char c - 55)"

text \<open>\<^verbatim>\<open>int(text)\<close> for a text matched by \<^verbatim>\<open>-?(0|[1-9][0-9]*)\<close>.\<close>

definition parse_int :: "string \<Rightarrow> int" where
  "parse_int s =
     (case s of
        c # ds \<Rightarrow>
          if c = CHR ''-'' then - foldl (\<lambda>a d. 10 * a + digit_val d) 0 ds
          else foldl (\<lambda>a d. 10 * a + digit_val d) 0 (c # ds)
      | [] \<Rightarrow> 0)"

text \<open>
  \<^verbatim>\<open>NUMBER_RE = (-?(?:0|[1-9][0-9]*))(\.[0-9]+)?([eE][-+]?[0-9]+)?\<close>: the three groups
  of a match at the start of the input and the rest of the input, or \<open>None\<close>.
\<close>

definition match_integer :: "string \<Rightarrow> (string \<times> string) option" where
  "match_integer s =
     (let (sign, r) = (case s of c # r \<Rightarrow> if c = CHR ''-'' then ([c], r) else ([], s) | [] \<Rightarrow> ([], s))
      in case r of
           [] \<Rightarrow> None
         | d # r' \<Rightarrow>
             if d = CHR ''0'' then Some (sign @ [d], r')
             else if is_digit d then Some (sign @ d # takeWhile is_digit r', dropWhile is_digit r')
             else None)"

definition match_frac :: "string \<Rightarrow> string \<times> string" where
  "match_frac s =
     (case s of
        c # r \<Rightarrow>
          if c = CHR ''.'' \<and> takeWhile is_digit r \<noteq> []
          then (c # takeWhile is_digit r, dropWhile is_digit r)
          else ([], s)
      | [] \<Rightarrow> ([], s))"

definition match_exp :: "string \<Rightarrow> string \<times> string" where
  "match_exp s =
     (case s of
        c # r \<Rightarrow>
          if c = CHR ''e'' \<or> c = CHR ''E'' then
            (let (sign, r') =
                   (case r of
                      x # t \<Rightarrow> if x = CHR ''-'' \<or> x = CHR ''+'' then ([x], t) else ([], r)
                    | [] \<Rightarrow> ([], r))
             in if takeWhile is_digit r' \<noteq> []
                then (c # sign @ takeWhile is_digit r', dropWhile is_digit r')
                else ([], s))
          else ([], s)
      | [] \<Rightarrow> ([], s))"

definition match_number :: "string \<Rightarrow> (pyval \<times> string) option" where
  "match_number s =
     (case match_integer s of
        None \<Rightarrow> None
      | Some (integer, r1) \<Rightarrow>
          (let (frac, r2) = match_frac r1;
               (exp, r3) = match_exp r2
           in if frac \<noteq> [] \<or> exp \<noteq> []
              then Some (PyFloat (FloatLiteral (integer @ frac @ exp)), r3)
              else Some (PyInt (parse_int integer), r3)))"

text \<open>
  \<^verbatim>\<open>py_scanstring\<close> in strict mode, entered after the opening quote: the decoded string
  and the input after the closing quote. A control character, an unknown escape, a
  malformed \<^verbatim>\<open>\uXXXX\<close> and a missing closing quote are errors. A high surrogate followed
  by an escaped low surrogate is one code point.
\<close>

definition BACKSLASH :: "char \<Rightarrow> int option" where
  "BACKSLASH esc =
     (if esc = CHR 0x22 then Some 0x22
      else if esc = CHR 0x5C then Some 0x5C
      else if esc = CHR ''/'' then Some 0x2F
      else if esc = CHR ''b'' then Some 0x08
      else if esc = CHR ''f'' then Some 0x0C
      else if esc = CHR ''n'' then Some 0x0A
      else if esc = CHR ''r'' then Some 0x0D
      else if esc = CHR ''t'' then Some 0x09
      else None)"

definition decode_uXXXX :: "string \<Rightarrow> int option" where
  "decode_uXXXX s =
     (let esc = take 4 s
      in if length esc = 4 \<and> list_all is_hexdigit esc
         then Some (foldl (\<lambda>a d. 16 * a + hex_val d) 0 esc)
         else None)"

fun scanstring :: "string \<Rightarrow> pystr \<Rightarrow> (pystr \<times> string) option" where
  "scanstring [] chunks = None"
| "scanstring (c # cs) chunks =
     (if c = CHR 0x22 then Some (chunks, cs)
      else if c = CHR 0x5C then
        (case cs of
           [] \<Rightarrow> None
         | esc # r \<Rightarrow>
             if esc \<noteq> CHR ''u'' then
               (case BACKSLASH esc of
                  None \<Rightarrow> None
                | Some ch \<Rightarrow> scanstring r (chunks @ [ch]))
             else
               (case decode_uXXXX r of
                  None \<Rightarrow> None
                | Some uni \<Rightarrow>
                    if 0xD800 \<le> uni \<and> uni \<le> 0xDBFF \<and> take 2 (drop 4 r) = [CHR 0x5C, CHR ''u''] then
                      (case decode_uXXXX (drop 6 r) of
                         None \<Rightarrow> None
                       | Some uni2 \<Rightarrow>
                           if 0xDC00 \<le> uni2 \<and> uni2 \<le> 0xDFFF
                           then scanstring (drop 10 r)
                                  (chunks @ [0x10000 + ((uni - 0xD800) * 1024 + (uni2 - 0xDC00))])
                           else scanstring (drop 4 r) (chunks @ [uni]))
                    else scanstring (drop 4 r) (chunks @ [uni])))
      else if of_char c < (0x20 :: int) then None
      else scanstring cs (chunks @ [of_char c]))"

text \<open>
  The scalar branches of \<^verbatim>\<open>scan_once\<close>, in its order: a string, \<^verbatim>\<open>null\<close>, \<^verbatim>\<open>true\<close>,
  \<^verbatim>\<open>false\<close>, a number, \<^verbatim>\<open>NaN\<close>, \<^verbatim>\<open>Infinity\<close>, \<^verbatim>\<open>-Infinity\<close>.
\<close>

definition scan_scalar :: "string \<Rightarrow> (pyval \<times> string) option" where
  "scan_scalar s =
     (case s of
        [] \<Rightarrow> None
      | nextchar # r \<Rightarrow>
          if nextchar = CHR 0x22 then
            (case scanstring r [] of None \<Rightarrow> None | Some (k, rest) \<Rightarrow> Some (PyStr k, rest))
          else if take 4 s = ''null'' then Some (PyNone, drop 4 s)
          else if take 4 s = ''true'' then Some (PyBool True, drop 4 s)
          else if take 5 s = ''false'' then Some (PyBool False, drop 5 s)
          else
            (case match_number s of
               Some m \<Rightarrow> Some m
             | None \<Rightarrow>
                 if take 3 s = ''NaN'' then Some (PyFloat NaN, drop 3 s)
                 else if take 8 s = ''Infinity'' then Some (PyFloat PosInf, drop 8 s)
                 else if take 9 s = ''-Infinity'' then Some (PyFloat NegInf, drop 9 s)
                 else None))"

datatype token = LBRACE | RBRACE | LBRACKET | RBRACKET | COLON | COMMA | SCALAR pyval

lemma scanstring_shorter:
  "scanstring cs chunks = Some (k, rest) \<Longrightarrow> length rest \<le> length cs"
proof (induction cs arbitrary: chunks rule: length_induct)
  case (1 xs)
  have IH: "\<And>ys ch. scanstring ys ch = Some (k, rest) \<Longrightarrow> length ys < length xs
              \<Longrightarrow> length rest \<le> length ys"
    using "1.IH" by blast
  show ?case
  proof (cases xs)
    case Nil
    with "1.prems" show ?thesis by simp
  next
    case (Cons c cs)
    with "1.prems" show ?thesis
      by (auto split: if_splits list.splits option.splits dest!: IH)
  qed
qed

lemma match_integer_shorter:
  "match_integer s = Some (i, rest) \<Longrightarrow> length rest < length s"
  by (auto simp: match_integer_def Let_def less_Suc_eq_le length_dropWhile_le
           split: list.splits if_splits
           intro: le_trans [OF length_dropWhile_le])

lemma match_frac_shorter: "match_frac s = (f, rest) \<Longrightarrow> length rest \<le> length s"
  by (auto simp: match_frac_def split: list.splits if_splits
           intro: le_trans [OF length_dropWhile_le])

lemma match_exp_shorter: "match_exp s = (e, rest) \<Longrightarrow> length rest \<le> length s"
  by (auto simp: match_exp_def Let_def split: list.splits if_splits prod.splits
           intro: le_trans [OF length_dropWhile_le])

lemma match_number_shorter:
  "match_number s = Some (v, rest) \<Longrightarrow> length rest < length s"
  by (auto simp: match_number_def Let_def split: option.splits prod.splits if_splits
           dest!: match_integer_shorter match_frac_shorter match_exp_shorter)

lemma scan_scalar_shorter:
  "scan_scalar s = Some (v, rest) \<Longrightarrow> length rest < length s"
  by (auto simp: scan_scalar_def split: list.splits if_splits option.splits
           dest: scanstring_shorter match_number_shorter)

function tokens :: "string \<Rightarrow> token list option" where
  "tokens [] = Some []"
| "tokens (c # cs) =
     (if WHITESPACE c then tokens cs
      else if c = CHR ''{'' then map_option (Cons LBRACE) (tokens cs)
      else if c = CHR ''}'' then map_option (Cons RBRACE) (tokens cs)
      else if c = CHR ''['' then map_option (Cons LBRACKET) (tokens cs)
      else if c = CHR '']'' then map_option (Cons RBRACKET) (tokens cs)
      else if c = CHR '':'' then map_option (Cons COLON) (tokens cs)
      else if c = CHR '','' then map_option (Cons COMMA) (tokens cs)
      else
        (case scan_scalar (c # cs) of
           None \<Rightarrow> None
         | Some (v, rest) \<Rightarrow> map_option (Cons (SCALAR v)) (tokens rest)))"
  by pat_completeness auto
termination
  by (relation "measure length") (auto dest: scan_scalar_shorter)

text \<open>
  The nesting. \<^verbatim>\<open>JSONArray\<close> and \<^verbatim>\<open>JSONObject\<close> collect the values of an array and the
  pairs of an object; the stack holds the containers that are still open. An object is
  built by \<^verbatim>\<open>dict(pairs)\<close>: a repeated key keeps its first position and takes its last
  value.
\<close>

datatype frame =
    InArray "pyval list"
  | InObject "(pystr \<times> pyval) list"
  | InPair "(pystr \<times> pyval) list" pystr

datatype expect =
    Value
  | ValueOrClose
  | KeyOrClose
  | Key
  | Colon
  | SepOrClose
  | Done pyval

definition dict_set :: "(pystr \<times> pyval) list \<Rightarrow> pystr \<Rightarrow> pyval \<Rightarrow> (pystr \<times> pyval) list" where
  "dict_set d k v =
     (if map_of d k = None then d @ [(k, v)]
      else map (\<lambda>(k', v'). if k' = k then (k', v) else (k', v')) d)"

definition dict :: "(pystr \<times> pyval) list \<Rightarrow> (pystr \<times> pyval) list" where
  "dict pairs = foldl (\<lambda>d (k, v). dict_set d k v) [] pairs"

text \<open>A finished value goes to the innermost open container, or is the document.\<close>

definition deliver :: "pyval \<Rightarrow> frame list \<Rightarrow> (expect \<times> frame list) option" where
  "deliver v stack =
     (case stack of
        [] \<Rightarrow> Some (Done v, [])
      | InArray vs # up \<Rightarrow> Some (SepOrClose, InArray (vs @ [v]) # up)
      | InPair pairs k # up \<Rightarrow> Some (SepOrClose, InObject (pairs @ [(k, v)]) # up)
      | InObject pairs # up \<Rightarrow> None)"

definition start_value :: "token \<Rightarrow> frame list \<Rightarrow> (expect \<times> frame list) option" where
  "start_value t stack =
     (case t of
        SCALAR v \<Rightarrow> deliver v stack
      | LBRACKET \<Rightarrow> Some (ValueOrClose, InArray [] # stack)
      | LBRACE \<Rightarrow> Some (KeyOrClose, InObject [] # stack)
      | _ \<Rightarrow> None)"

definition start_key :: "token \<Rightarrow> frame list \<Rightarrow> (expect \<times> frame list) option" where
  "start_key t stack =
     (case (t, stack) of
        (SCALAR (PyStr k), InObject pairs # up) \<Rightarrow> Some (Colon, InPair pairs k # up)
      | _ \<Rightarrow> None)"

definition close_array :: "token \<Rightarrow> frame list \<Rightarrow> (expect \<times> frame list) option" where
  "close_array t stack =
     (case (t, stack) of
        (RBRACKET, InArray vs # up) \<Rightarrow> deliver (PyList vs) up
      | _ \<Rightarrow> None)"

definition close_object :: "token \<Rightarrow> frame list \<Rightarrow> (expect \<times> frame list) option" where
  "close_object t stack =
     (case (t, stack) of
        (RBRACE, InObject pairs # up) \<Rightarrow> deliver (PyDict (dict pairs)) up
      | _ \<Rightarrow> None)"

definition step :: "expect \<Rightarrow> frame list \<Rightarrow> token \<Rightarrow> (expect \<times> frame list) option" where
  "step e stack t =
     (case e of
        Value \<Rightarrow> start_value t stack
      | ValueOrClose \<Rightarrow> if t = RBRACKET then close_array t stack else start_value t stack
      | KeyOrClose \<Rightarrow> if t = RBRACE then close_object t stack else start_key t stack
      | Key \<Rightarrow> start_key t stack
      | Colon \<Rightarrow> if t = COLON then Some (Value, stack) else None
      | SepOrClose \<Rightarrow>
          (case stack of
             InArray vs # up \<Rightarrow>
               if t = COMMA then Some (Value, stack) else close_array t stack
           | InObject pairs # up \<Rightarrow>
               if t = COMMA then Some (Key, stack) else close_object t stack
           | _ \<Rightarrow> None)
      | Done v \<Rightarrow> None)"

fun nest :: "expect \<Rightarrow> frame list \<Rightarrow> token list \<Rightarrow> exn + pyval" where
  "nest e stack [] = (case e of Done v \<Rightarrow> Inr v | _ \<Rightarrow> Inl JSONDecodeError)"
| "nest e stack (t # ts) =
     (case step e stack t of
        None \<Rightarrow> Inl JSONDecodeError
      | Some (e', stack') \<Rightarrow> nest e' stack' ts)"

definition json_loads :: "string \<Rightarrow> exn + pyval" where
  "json_loads s =
     (case tokens s of
        None \<Rightarrow> Inl JSONDecodeError
      | Some ts \<Rightarrow> nest Value [] ts)"

section \<open>The subscript \<^verbatim>\<open>obj[key]\<close> with a \<^verbatim>\<open>str\<close> key\<close>

text \<open>
  A dict returns the value stored under the key or raises \<open>KeyError\<close>; a list and a
  string take integer indices only, and the other values of a JSON document are not
  subscriptable: a \<open>TypeError\<close> each.
\<close>

definition getitem :: "pyval \<Rightarrow> pystr \<Rightarrow> exn + pyval" where
  "getitem obj key =
     (case obj of
        PyDict d \<Rightarrow> (case map_of d key of None \<Rightarrow> Inl (KeyError key) | Some v \<Rightarrow> Inr v)
      | _ \<Rightarrow> Inl TypeError)"

section \<open>\<^verbatim>\<open>torch.tensor(data, dtype=torch.bfloat16)\<close>\<close>

text \<open>
  The constructor on the values of a JSON document, as \<^verbatim>\<open>internal_new_from_data\<close> of
  PyTorch 2 (\<^verbatim>\<open>torch/csrc/utils/tensor_new.cpp\<close>) builds a tensor when the element type is
  given, so that no type is inferred from the data: a top-level string is refused,
  \<^verbatim>\<open>compute_sizes\<close> reads the shape along the first items, and \<^verbatim>\<open>recursive_store\<close> fills
  the storage in row-major order, checking the length of every sequence against the
  shape, unless the tensor has no element. The tensor is a shape and its elements in
  row-major order; the element type is always bfloat16.

  An element is stored by converting the Python object to a double
  (\<^verbatim>\<open>THPUtils_unpackDouble\<close>, that is \<^verbatim>\<open>PyFloat_AsDouble\<close>) and the double to bfloat16.
  The rounding is not modelled: \<open>BFloat16 d\<close> stands for the bfloat16 that the double
  \<open>d\<close> is converted to.
\<close>

datatype bfloat16 = BFloat16 pyfloat

record tensor =
  shape :: "nat list"
  elems :: "bfloat16 list"

definition MAX_DIMS :: nat where
  "MAX_DIMS = 128"

definition PySequence_Check :: "pyval \<Rightarrow> bool" where
  "PySequence_Check v = (case v of PyList xs \<Rightarrow> True | PyStr s \<Rightarrow> True | _ \<Rightarrow> False)"

definition PySequence_Length :: "pyval \<Rightarrow> nat" where
  "PySequence_Length v = (case v of PyList xs \<Rightarrow> length xs | PyStr s \<Rightarrow> length s | _ \<Rightarrow> 0)"

text \<open>\<^verbatim>\<open>PySequence_GetItem(seq, 0)\<close>; an item of a string is a string of one character.\<close>

definition PySequence_GetItem0 :: "pyval \<Rightarrow> pyval option" where
  "PySequence_GetItem0 v =
     (case v of
        PyList xs \<Rightarrow> (case xs of [] \<Rightarrow> None | x # r \<Rightarrow> Some x)
      | PyStr s \<Rightarrow> (case s of [] \<Rightarrow> None | c # r \<Rightarrow> Some (PyStr [c]))
      | _ \<Rightarrow> None)"

text \<open>
  The loop of \<^verbatim>\<open>compute_sizes\<close>, with the sizes found so far. It stops at the first
  object that is not a sequence, at an empty sequence, or with \<open>ValueError\<close> when there
  are more than \<open>MAX_DIMS\<close> sizes (a non-empty string never ends otherwise: its first
  item is a non-empty string).
\<close>

function compute_sizes :: "pyval \<Rightarrow> nat list \<Rightarrow> exn + nat list" where
  "compute_sizes seq sizes =
     (if \<not> PySequence_Check seq then Inr sizes
      else if length (sizes @ [PySequence_Length seq]) > MAX_DIMS then Inl ValueError
      else if PySequence_Length seq = 0 then Inr (sizes @ [PySequence_Length seq])
      else
        (case PySequence_GetItem0 seq of
           None \<Rightarrow> Inl ValueError
         | Some new_obj \<Rightarrow> compute_sizes new_obj (sizes @ [PySequence_Length seq])))"
  by pat_completeness auto
termination
  by (relation "measure (\<lambda>(seq, sizes). Suc MAX_DIMS - length sizes)") auto

declare compute_sizes.simps [simp del]

text \<open>
  \<^verbatim>\<open>PySequence_Fast\<close>: the items of a list, the characters of a string, the keys of a
  dict (any iterable is accepted); \<open>TypeError\<close> for an object that cannot be iterated.
\<close>

definition PySequence_Fast :: "pyval \<Rightarrow> exn + pyval list" where
  "PySequence_Fast obj =
     (case obj of
        PyList xs \<Rightarrow> Inr xs
      | PyStr s \<Rightarrow> Inr (map (\<lambda>c. PyStr [c]) s)
      | PyDict d \<Rightarrow> Inr (map (\<lambda>(k, v). PyStr k) d)
      | _ \<Rightarrow> Inl TypeError)"

text \<open>
  \<^verbatim>\<open>float(n)\<close> for a Python integer rounds to the nearest double, ties to even, and
  raises \<open>OverflowError\<close> when the result would exceed the largest double: that is
  from \<open>2 ^ 1024 - 2 ^ 970\<close> on, in absolute value.
\<close>

definition fits_double :: "int \<Rightarrow> bool" where
  "fits_double n = (\<bar>n\<bar> < 2 ^ 1024 - 2 ^ 970)"

definition PyLong_AsDouble :: "int \<Rightarrow> exn + pyfloat" where
  "PyLong_AsDouble n = (if fits_double n then Inr (FloatOfInt n) else Inl OverflowError)"

text \<open>
  \<^verbatim>\<open>THPUtils_unpackDouble\<close>: a float as it is, an integer through \<^verbatim>\<open>float(n)\<close>, a bool as
  the integer \<open>1\<close> or \<open>0\<close> it is; \<open>None\<close>, strings, lists and dicts are no real
  numbers.
\<close>

definition THPUtils_unpackDouble :: "pyval \<Rightarrow> exn + pyfloat" where
  "THPUtils_unpackDouble obj =
     (case obj of
        PyFloat f \<Rightarrow> Inr f
      | PyInt n \<Rightarrow> PyLong_AsDouble n
      | PyBool b \<Rightarrow> PyLong_AsDouble (if b then 1 else 0)
      | _ \<Rightarrow> Inl TypeError)"

definition store_scalar :: "pyval \<Rightarrow> exn + bfloat16 list" where
  "store_scalar obj =
     (case THPUtils_unpackDouble obj of
        Inl e \<Rightarrow> Inl e
      | Inr d \<Rightarrow> Inr [BFloat16 d])"

text \<open>The loop over the items of one sequence: the first exception ends it.\<close>

primrec store_items :: "(pyval \<Rightarrow> exn + bfloat16 list) \<Rightarrow> pyval list \<Rightarrow> exn + bfloat16 list" where
  "store_items store [] = Inr []"
| "store_items store (item # items) =
     (case store item of
        Inl e \<Rightarrow> Inl e
      | Inr d \<Rightarrow>
          (case store_items store items of
             Inl e \<Rightarrow> Inl e
           | Inr ds \<Rightarrow> Inr (d @ ds)))"

primrec recursive_store :: "nat list \<Rightarrow> pyval \<Rightarrow> exn + bfloat16 list" where
  "recursive_store [] = (\<lambda>obj. store_scalar obj)"
| "recursive_store (n # sizes) =
     (\<lambda>obj.
        case PySequence_Fast obj of
          Inl e \<Rightarrow> Inl e
        | Inr items \<Rightarrow>
            if length items \<noteq> n then Inl ValueError
            else store_items (recursive_store sizes) items)"

definition torch_tensor :: "pyval \<Rightarrow> exn + tensor" where
  "torch_tensor data =
     (case data of
        PyStr s \<Rightarrow> Inl TypeError
      | _ \<Rightarrow>
          (case compute_sizes data [] of
             Inl e \<Rightarrow> Inl e
           | Inr sizes \<Rightarrow>
               if prod_list sizes \<noteq> 0 then
                 (case recursive_store sizes data of
                    Inl e \<Rightarrow> Inl e
                  | Inr storage \<Rightarrow> Inr \<lparr>shape = sizes, elems = storage\<rparr>)
               else Inr \<lparr>shape = sizes, elems = []\<rparr>))"

section \<open>The handlers of \<^verbatim>\<open>endpoint_serving.py\<close>\<close>

text \<open>
  What the handlers act on: the lines the module's logger has written, the state of the
  model object, and the calls of its \<^verbatim>\<open>predict\<close> method so far (kept for the statements
  about how often and with which arguments it is called). The model object is owned by
  the hosting runtime; its \<^verbatim>\<open>predict\<close> method takes the keyword arguments and the state
  of the object, and returns a value or raises, leaving a new state.
\<close>

record 'c predict_kwargs =
  context' :: 'c
  prediction_length :: int
  num_samples :: int

record ('c, 's) world =
  logged :: "string list"
  model_state :: 's
  predict_calls :: "'c predict_kwargs list"

type_synonym ('c, 's, 'e, 'r) model = "'c predict_kwargs \<Rightarrow> 's \<Rightarrow> ('e + 'r) \<times> 's"

definition logger_info :: "string \<Rightarrow> ('c, 's) world \<Rightarrow> ('c, 's) world" where
  "logger_info msg w = w\<lparr>logged := logged w @ [msg]\<rparr>"

definition call_predict ::
  "('c, 's, 'e, 'r) model \<Rightarrow> 'c predict_kwargs \<Rightarrow> ('c, 's) world \<Rightarrow> ('e + 'r) \<times> ('c, 's) world" where
  "call_predict m kwargs w =
     (case m kwargs (model_state w) of
        (r, s) \<Rightarrow> (r, w\<lparr>model_state := s, predict_calls := predict_calls w @ [kwargs]\<rparr>))"

text \<open>
  \<^verbatim>\<open>
  def input_fn(request_body, request_content_type):
      logger.info("Running input_fn")
      data = json.loads(request_body)["inputs"]
      data = torch.tensor(data, dtype=torch.bfloat16)
      return data
  \<close>
\<close>

definition input_fn :: "string \<Rightarrow> string \<Rightarrow> ('c, 's) world \<Rightarrow> (exn + tensor) \<times> ('c, 's) world" where
  "input_fn request_body request_content_type w =
     (let w1 = logger_info ''Running input_fn'' w
      in case json_loads request_body of
           Inl e \<Rightarrow> (Inl e, w1)
         | Inr obj \<Rightarrow>
             (case getitem obj (str ''inputs'') of
                Inl e \<Rightarrow> (Inl e, w1)
              | Inr data \<Rightarrow>
                  (case torch_tensor data of
                     Inl e \<Rightarrow> (Inl e, w1)
                   | Inr data' \<Rightarrow> (Inr data', w1))))"

text \<open>
  \<^verbatim>\<open>
  def predict_fn(input_object, model_artifacts):
      logger.info("Running predict_fn")
      val_ts_tensor = input_object
      predictions = model_artifacts.predict(
          context=val_ts_tensor,
          prediction_length=12,
          num_samples=20,
      )
      return predictions
  \<close>
\<close>

definition predict_fn ::
  "'c \<Rightarrow> ('c, 's, 'e, 'r) model \<Rightarrow> ('c, 's) world \<Rightarrow> ('e + 'r) \<times> ('c, 's) world" where
  "predict_fn input_object model_artifacts w =
     (let w1 = logger_info ''Running predict_fn'' w;
          val_ts_tensor = input_object
      in case call_predict model_artifacts
                \<lparr>context' = val_ts_tensor, prediction_length = 12, num_samples = 20\<rparr> w1 of
           (Inl e, w2) \<Rightarrow> (Inl e, w2)
         | (Inr predictions, w2) \<Rightarrow> (Inr predictions, w2))"

text \<open>
  \<^verbatim>\<open>
  def output_fn(predictions, content_type):
      logger.info("Running output_fn")
      return predictions
  \<close>
\<close>

definition output_fn :: "'r \<Rightarrow> string \<Rightarrow> ('c, 's) world \<Rightarrow> 'r \<times> ('c, 's) world" where
  "output_fn predictions content_type w =
     (let w1 = logger_info ''Running output_fn'' w
      in (predictions, w1))"

section \<open>The notions the specification uses\<close>



text \<open>
  The cast of one entry to the reduced-precision type: defined for a float, for an
  integer that has a double, and for a boolean (the integer \<open>1\<close> or \<open>0\<close>).
\<close>

definition cast_bfloat16 :: "pyval \<Rightarrow> bfloat16 option" where
  "cast_bfloat16 v =
     (case v of
        PyFloat f \<Rightarrow> Some (BFloat16 f)
      | PyInt n \<Rightarrow> if fits_double n then Some (BFloat16 (FloatOfInt n)) else None
      | PyBool b \<Rightarrow> Some (BFloat16 (FloatOfInt (if b then 1 else 0)))
      | _ \<Rightarrow> None)"

definition castable :: "pyval \<Rightarrow> bool" where
  "castable v = (cast_bfloat16 v \<noteq> None)"

text \<open>A JSON number that has a double; a JSON number that has a double, or a boolean.\<close>

definition numeric :: "pyval \<Rightarrow> bool" where
  "numeric v = (case v of PyInt n \<Rightarrow> fits_double n | PyFloat f \<Rightarrow> True | _ \<Rightarrow> False)"

definition numeric_or_bool :: "pyval \<Rightarrow> bool" where
  "numeric_or_bool v = (case v of PyBool b \<Rightarrow> True | _ \<Rightarrow> numeric v)"


text \<open>
  \<open>nested P s v\<close>: the value \<open>v\<close> is a uniformly nested array of shape \<open>s\<close> whose
  innermost entries satisfy \<open>P\<close> (a scalar for the empty shape; an empty array ends the
  shape). \<open>leaves v\<close> are the innermost entries in row-major order.
\<close>

fun leaves :: "pyval \<Rightarrow> pyval list" where
  "leaves (PyList xs) = concat (map leaves xs)"
| "leaves v = [v]"

fun nested :: "(pyval \<Rightarrow> bool) \<Rightarrow> nat list \<Rightarrow> pyval \<Rightarrow> bool" where
  "nested P [] v = P v"
| "nested P (n # s) v =
     (case v of
        PyList xs \<Rightarrow> length xs = n \<and> (if n = 0 then s = [] else list_all (nested P s) xs)
      | _ \<Rightarrow> False)"




text \<open>A state of the process before any request, for the examples.\<close>

definition idle :: "'s \<Rightarrow> ('c, 's) world" where
  "idle s = \<lparr>logged = [], model_state = s, predict_calls = []\<rparr>"

section \<open>Lemmas about the tensor constructor\<close>

lemma cast_store_scalar:
  "cast_bfloat16 x = Some b \<Longrightarrow> store_scalar x = Inr [b]"
  by (auto simp: cast_bfloat16_def store_scalar_def THPUtils_unpackDouble_def PyLong_AsDouble_def
      fits_double_def split: pyval.splits if_splits)

lemma cast_not_sequence:
  "cast_bfloat16 x = Some b \<Longrightarrow> \<not> PySequence_Check x \<and> leaves x = [x] \<and> (\<forall>s. x \<noteq> PyStr s)"
  by (auto simp: cast_bfloat16_def PySequence_Check_def split: pyval.splits)

lemma compute_sizes_nested:
  "nested castable s v \<Longrightarrow> length sizes + length s \<le> MAX_DIMS
     \<Longrightarrow> compute_sizes v sizes = Inr (sizes @ s)"
proof (induction s arbitrary: v sizes)
  case Nil
  then have "\<not> PySequence_Check v"
    using cast_not_sequence by (auto simp: castable_def)
  then show ?case by (subst compute_sizes.simps) simp
next
  case (Cons n s)
  from Cons.prems(1) obtain xs where v: "v = PyList xs" and len: "length xs = n"
    and rest: "if n = 0 then s = [] else list_all (nested castable s) xs"
    by (auto split: pyval.splits)
  have chk: "PySequence_Check v" "PySequence_Length v = n"
    using v len by (simp_all add: PySequence_Check_def PySequence_Length_def)
  have bound: "\<not> length (sizes @ [n]) > MAX_DIMS"
    using Cons.prems(2) by simp
  show ?case
  proof (cases "n = 0")
    case True
    with rest chk bound show ?thesis
      by (subst compute_sizes.simps) simp
  next
    case False
    with len obtain x r where xs: "xs = x # r" by (cases xs) auto
    with rest False have nx: "nested castable s x" by simp
    have "compute_sizes x (sizes @ [n]) = Inr ((sizes @ [n]) @ s)"
      using Cons.IH [OF nx] Cons.prems(2) by simp
    with chk bound False v xs show ?thesis
      by (subst compute_sizes.simps) (simp add: PySequence_GetItem0_def)
  qed
qed

lemma store_items_all:
  "(\<And>x. x \<in> set xs \<Longrightarrow> store x = Inr (map (the \<circ> cast_bfloat16) (leaves x)))
     \<Longrightarrow> store_items store xs = Inr (map (the \<circ> cast_bfloat16) (concat (map leaves xs)))"
  by (induction xs) auto

lemma recursive_store_nested:
  "nested castable s v \<Longrightarrow> prod_list s \<noteq> 0
     \<Longrightarrow> recursive_store s v = Inr (map (the \<circ> cast_bfloat16) (leaves v))"
proof (induction s arbitrary: v)
  case Nil
  then obtain b where "cast_bfloat16 v = Some b" by (auto simp: castable_def)
  then show ?case
    using cast_store_scalar [of v b] cast_not_sequence [of v b] by simp
next
  case (Cons n s)
  from Cons.prems(2) have n: "n \<noteq> 0" and ps: "prod_list s \<noteq> 0" by auto
  from Cons.prems(1) n obtain xs where v: "v = PyList xs" and len: "length xs = n"
    and rest: "list_all (nested castable s) xs"
    by (auto split: pyval.splits)
  have "store_items (recursive_store s) xs
          = Inr (map (the \<circ> cast_bfloat16) (concat (map leaves xs)))"
  proof (rule store_items_all)
    fix x assume "x \<in> set xs"
    with rest have "nested castable s x" by (simp add: list_all_iff)
    then show "recursive_store s x = Inr (map (the \<circ> cast_bfloat16) (leaves x))"
      using Cons.IH ps by blast
  qed
  with v len show ?case by (simp add: PySequence_Fast_def)
qed

lemma leaves_empty:
  "nested P s v \<Longrightarrow> prod_list s = 0 \<Longrightarrow> leaves v = []"
proof (induction s arbitrary: v)
  case Nil
  then show ?case by simp
next
  case (Cons n s)
  from Cons.prems(1) obtain xs where v: "v = PyList xs" and len: "length xs = n"
    and rest: "if n = 0 then s = [] else list_all (nested P s) xs"
    by (auto split: pyval.splits)
  show ?case
  proof (cases "n = 0")
    case True
    with v len show ?thesis by simp
  next
    case False
    with Cons.prems(2) have "prod_list s = 0" by simp
    with rest False Cons.IH have "\<forall>x \<in> set xs. leaves x = []"
      by (auto simp: list_all_iff)
    with v show ?thesis by simp
  qed
qed

lemma nested_not_str: "nested castable s v \<Longrightarrow> v \<noteq> PyStr k"
  using cast_not_sequence by (cases s) (auto simp: castable_def)

lemma torch_tensor_not_str:
  "(\<And>k. v \<noteq> PyStr k) \<Longrightarrow>
   torch_tensor v =
     (case compute_sizes v [] of
        Inl e \<Rightarrow> Inl e
      | Inr sizes \<Rightarrow>
          if prod_list sizes \<noteq> 0 then
            (case recursive_store sizes v of
               Inl e \<Rightarrow> Inl e
             | Inr storage \<Rightarrow> Inr \<lparr>shape = sizes, elems = storage\<rparr>)
          else Inr \<lparr>shape = sizes, elems = []\<rparr>)"
  by (cases v) (auto simp: torch_tensor_def)

lemma torch_tensor_nested:
  assumes "nested castable s v" "length s \<le> MAX_DIMS"
  shows "torch_tensor v = Inr \<lparr>shape = s, elems = map (the \<circ> cast_bfloat16) (leaves v)\<rparr>"
proof -
  have cs: "compute_sizes v [] = Inr s"
    using compute_sizes_nested [OF assms(1), of "[]"] assms(2) by simp
  have ns: "\<And>k. v \<noteq> PyStr k" using nested_not_str [OF assms(1)] by simp
  show ?thesis
  proof (cases "prod_list s = 0")
    case True
    with cs leaves_empty [OF assms(1) True] show ?thesis
      by (simp add: torch_tensor_not_str [OF ns])
  next
    case False
    with cs recursive_store_nested [OF assms(1) False] show ?thesis
      by (simp add: torch_tensor_not_str [OF ns])
  qed
qed

lemma nested_mono:
  "nested P s v \<Longrightarrow> (\<And>x. P x \<Longrightarrow> Q x) \<Longrightarrow> nested Q s v"
  by (induction s arbitrary: v) (auto split: pyval.splits simp: list_all_iff)

lemma input_fn_result:
  "json_loads request_body = Inr (PyDict d) \<Longrightarrow> map_of d (str ''inputs'') = Some v
     \<Longrightarrow> fst (input_fn request_body request_content_type w) = torch_tensor v"
  by (simp add: input_fn_def getitem_def Let_def split: sum.splits)



lemma numeric_castable: "numeric x \<Longrightarrow> castable x"
  by (auto simp: numeric_def castable_def cast_bfloat16_def split: pyval.splits)

lemma numeric_or_bool_castable: "numeric_or_bool x \<Longrightarrow> castable x"
  by (auto simp: numeric_or_bool_def numeric_def castable_def cast_bfloat16_def split: pyval.splits)

lemma castable_leaves: "list_all castable xs \<Longrightarrow> concat (map leaves xs) = xs"
  using cast_not_sequence by (induction xs) (auto simp: castable_def)

lemma castable_the: "list_all castable xs \<Longrightarrow> map Some (map (the \<circ> cast_bfloat16) xs) = map cast_bfloat16 xs"
  by (induction xs) (auto simp: castable_def)

lemma nested_leaves_castable: "nested castable s v \<Longrightarrow> list_all castable (leaves v)"
proof (induction s arbitrary: v)
  case Nil
  then show ?case using cast_not_sequence by (auto simp: castable_def)
next
  case (Cons n s)
  then show ?case
    by (auto split: pyval.splits if_splits simp: list_all_iff)
qed







section \<open>The Deserializer: \<^verbatim>\<open>input_fn\<close>\<close>

text \<open>
  C1, as amended. For every payload that the decoder reads as an object whose \<^verbatim>\<open>inputs\<close>
  field is an array \<open>[n1, ..., nk]\<close> of numbers, each a float or an integer that has a
  double (of absolute value below \<open>2 ^ 1024 - 2 ^ 970\<close>), \<^verbatim>\<open>input_fn\<close> returns a tensor
  of shape \<open>(k,)\<close> whose elements are the entries cast to bfloat16, in order, whatever
  the content type.
\<close>

theorem input_fn_flat_numbers:
  assumes "json_loads request_body = Inr (PyDict d)"
    and "map_of d (str ''inputs'') = Some (PyList ns)"
    and "list_all numeric ns"
  shows "\<exists>t. fst (input_fn request_body request_content_type w) = Inr t
           \<and> shape t = [length ns]
           \<and> map Some (elems t) = map cast_bfloat16 ns"
proof -
  have c: "list_all castable ns"
    using assms(3) numeric_castable by (auto simp: list_all_iff)
  then have "nested castable [length ns] (PyList ns)" by (simp add: list_all_iff)
  then have "torch_tensor (PyList ns)
      = Inr \<lparr>shape = [length ns], elems = map (the \<circ> cast_bfloat16) (leaves (PyList ns))\<rparr>"
    by (rule torch_tensor_nested) (simp add: MAX_DIMS_def)
  then have "fst (input_fn request_body request_content_type w)
      = Inr \<lparr>shape = [length ns], elems = map (the \<circ> cast_bfloat16) ns\<rparr>"
    using c by (simp add: input_fn_result [OF assms(1,2)] castable_leaves)
  moreover have "map Some (map (the \<circ> cast_bfloat16) ns) = map cast_bfloat16 ns"
    using c by (rule castable_the)
  ultimately show ?thesis by simp
qed

theorem input_fn_flat_numbers_witness:
  "json_loads ''{\"inputs\": [1.0, 2.0, 3.0]}''
     = Inr (PyDict [(str ''inputs'',
          PyList [PyFloat (FloatLiteral ''1.0''), PyFloat (FloatLiteral ''2.0''),
                  PyFloat (FloatLiteral ''3.0'')])])
   \<and> fst (input_fn ''{\"inputs\": [1.0, 2.0, 3.0]}'' ''application/json''
            (idle () :: (unit, unit) world))
     = Inr \<lparr>shape = [3],
            elems = [BFloat16 (FloatLiteral ''1.0''), BFloat16 (FloatLiteral ''2.0''),
                     BFloat16 (FloatLiteral ''3.0'')]\<rparr>"
proof -
  let ?ns = "[PyFloat (FloatLiteral ''1.0''), PyFloat (FloatLiteral ''2.0''),
              PyFloat (FloatLiteral ''3.0'')]"
  have h1: "json_loads ''{\"inputs\": [1.0, 2.0, 3.0]}'' = Inr (PyDict [(str ''inputs'', PyList ?ns)])"
    by code_simp
  have h2: "map_of [(str ''inputs'', PyList ?ns)] (str ''inputs'') = Some (PyList ?ns)"
    by simp
  have h3: "list_all numeric ?ns"
    by (simp add: numeric_def)
  from input_fn_flat_numbers [OF h1 h2 h3, of "''application/json''" "idle () :: (unit, unit) world"]
  obtain t where t: "fst (input_fn ''{\"inputs\": [1.0, 2.0, 3.0]}'' ''application/json''
                (idle () :: (unit, unit) world)) = Inr t"
    "shape t = [length ?ns]" "map Some (elems t) = map cast_bfloat16 ?ns"
    by blast
  from t(3) have "elems t = [BFloat16 (FloatLiteral ''1.0''), BFloat16 (FloatLiteral ''2.0''),
                     BFloat16 (FloatLiteral ''3.0'')]"
    by (auto simp: cast_bfloat16_def map_eq_Cons_conv)
  with t(2) have "t = \<lparr>shape = [3],
            elems = [BFloat16 (FloatLiteral ''1.0''), BFloat16 (FloatLiteral ''2.0''),
                     BFloat16 (FloatLiteral ''3.0'')]\<rparr>"
    by (cases t) simp
  with t(1) h1 show ?thesis by simp
qed

text \<open>
  C1 as stated fails: the integer \<open>10 ^ 309\<close> is a number of a valid JSON document,
  and \<^verbatim>\<open>torch.tensor\<close> raises \<open>OverflowError\<close> on it (\<^verbatim>\<open>int too large to convert to float\<close>).
\<close>

theorem input_fn_flat_numbers_counterexample:
  "json_loads ''{\"inputs\": [1000000000000000000000000000000000000000000000000000000000000000000000000000000000000000000000000000000000000000000000000000000000000000000000000000000000000000000000000000000000000000000000000000000000000000000000000000000000000000000000000000000000000000000000000000000000000000000000000000000000000000000000]}''
     = Inr (PyDict [(str ''inputs'', PyList [PyInt 1000000000000000000000000000000000000000000000000000000000000000000000000000000000000000000000000000000000000000000000000000000000000000000000000000000000000000000000000000000000000000000000000000000000000000000000000000000000000000000000000000000000000000000000000000000000000000000000000000000000000000000000])])
   \<and> fst (input_fn ''{\"inputs\": [1000000000000000000000000000000000000000000000000000000000000000000000000000000000000000000000000000000000000000000000000000000000000000000000000000000000000000000000000000000000000000000000000000000000000000000000000000000000000000000000000000000000000000000000000000000000000000000000000000000000000000000000]}'' ''application/json''
            (idle () :: (unit, unit) world)) = Inl OverflowError"
  by code_simp







text \<open>
  C6, as amended. For every payload read as an object whose \<^verbatim>\<open>inputs\<close> field is a
  uniformly nested array of shape \<open>s\<close>, of at most 128 dimensions, whose innermost entries
  are floats or integers that have a double, \<^verbatim>\<open>input_fn\<close> returns a tensor of shape \<open>s\<close>
  holding the entries cast to bfloat16 in row-major order; \<^verbatim>\<open>{"inputs": [[1,2],[3,4]]}\<close>
  yields shape \<open>(2,2)\<close>.
\<close>

theorem input_fn_nested_shape:
  assumes "json_loads request_body = Inr (PyDict d)"
    and "map_of d (str ''inputs'') = Some v"
    and "nested numeric s v"
    and "length s \<le> MAX_DIMS"
  shows "\<exists>t. fst (input_fn request_body request_content_type w) = Inr t
           \<and> shape t = s
           \<and> map Some (elems t) = map cast_bfloat16 (leaves v)"
proof -
  have n: "nested castable s v"
    using assms(3) numeric_castable by (rule nested_mono)
  have "fst (input_fn request_body request_content_type w)
      = Inr \<lparr>shape = s, elems = map (the \<circ> cast_bfloat16) (leaves v)\<rparr>"
    by (simp add: input_fn_result [OF assms(1,2)] torch_tensor_nested [OF n assms(4)])
  moreover have "map Some (map (the \<circ> cast_bfloat16) (leaves v)) = map cast_bfloat16 (leaves v)"
    using nested_leaves_castable [OF n] by (rule castable_the)
  ultimately show ?thesis by simp
qed

theorem input_fn_nested_shape_witness:
  "json_loads ''{\"inputs\": [[1,2],[3,4]]}''
     = Inr (PyDict [(str ''inputs'',
          PyList [PyList [PyInt 1, PyInt 2], PyList [PyInt 3, PyInt 4]])])
   \<and> nested numeric [2, 2] (PyList [PyList [PyInt 1, PyInt 2], PyList [PyInt 3, PyInt 4]])
   \<and> fst (input_fn ''{\"inputs\": [[1,2],[3,4]]}'' ''application/json''
            (idle () :: (unit, unit) world))
     = Inr \<lparr>shape = [2, 2],
            elems = [BFloat16 (FloatOfInt 1), BFloat16 (FloatOfInt 2),
                     BFloat16 (FloatOfInt 3), BFloat16 (FloatOfInt 4)]\<rparr>"
proof -
  let ?v = "PyList [PyList [PyInt 1, PyInt 2], PyList [PyInt 3, PyInt 4]]"
  have h1: "json_loads ''{\"inputs\": [[1,2],[3,4]]}'' = Inr (PyDict [(str ''inputs'', ?v)])"
    by code_simp
  have h2: "map_of [(str ''inputs'', ?v)] (str ''inputs'') = Some ?v"
    by simp
  have h3: "nested numeric [2, 2] ?v"
    by (simp add: numeric_def fits_double_def)
  have h4: "length [2, 2 :: nat] \<le> MAX_DIMS"
    by (simp add: MAX_DIMS_def)
  from input_fn_nested_shape [OF h1 h2 h3 h4, of "''application/json''"
      "idle () :: (unit, unit) world"]
  obtain t where t: "fst (input_fn ''{\"inputs\": [[1,2],[3,4]]}'' ''application/json''
                (idle () :: (unit, unit) world)) = Inr t"
    "shape t = [2, 2]" "map Some (elems t) = map cast_bfloat16 (leaves ?v)"
    by blast
  from t(3) have "elems t = [BFloat16 (FloatOfInt 1), BFloat16 (FloatOfInt 2),
                     BFloat16 (FloatOfInt 3), BFloat16 (FloatOfInt 4)]"
    by (auto simp: cast_bfloat16_def fits_double_def map_eq_Cons_conv)
  with t(2) have "t = \<lparr>shape = [2, 2],
            elems = [BFloat16 (FloatOfInt 1), BFloat16 (FloatOfInt 2),
                     BFloat16 (FloatOfInt 3), BFloat16 (FloatOfInt 4)]\<rparr>"
    by (cases t) simp
  with t(1) h1 h3 show ?thesis by simp
qed

text \<open>
  C6 as stated fails: a uniformly nested array of numbers with an integer beyond the
  doubles yields no tensor (and so does an array nested more than 128 deep, with
  \<open>ValueError\<close>).
\<close>

theorem input_fn_nested_shape_counterexample:
  "json_loads ''{\"inputs\": [[1, 2], [3, 1000000000000000000000000000000000000000000000000000000000000000000000000000000000000000000000000000000000000000000000000000000000000000000000000000000000000000000000000000000000000000000000000000000000000000000000000000000000000000000000000000000000000000000000000000000000000000000000000000000000000000000000]]}''
     = Inr (PyDict [(str ''inputs'',
          PyList [PyList [PyInt 1, PyInt 2], PyList [PyInt 3, PyInt 1000000000000000000000000000000000000000000000000000000000000000000000000000000000000000000000000000000000000000000000000000000000000000000000000000000000000000000000000000000000000000000000000000000000000000000000000000000000000000000000000000000000000000000000000000000000000000000000000000000000000000000000]])])
   \<and> fst (input_fn ''{\"inputs\": [[1, 2], [3, 1000000000000000000000000000000000000000000000000000000000000000000000000000000000000000000000000000000000000000000000000000000000000000000000000000000000000000000000000000000000000000000000000000000000000000000000000000000000000000000000000000000000000000000000000000000000000000000000000000000000000000000000]]}'' ''application/json''
            (idle () :: (unit, unit) world)) = Inl OverflowError"
  by code_simp

text \<open>
  C8. For every request body and any two content types, \<^verbatim>\<open>input_fn\<close> gives the same
  result, the same tensor or the same exception, and leaves the same state: the content
  type has no influence.
\<close>

theorem input_fn_ignores_content_type:
  "input_fn request_body c1 w = input_fn request_body c2 w"
  by (simp add: input_fn_def)

theorem input_fn_ignores_content_type_witness:
  "input_fn ''{\"inputs\": [1, 2]}'' ''application/json'' (idle () :: (unit, unit) world)
     = input_fn ''{\"inputs\": [1, 2]}'' ''text/csv'' (idle ())"
  using input_fn_ignores_content_type
    [of "''{\"inputs\": [1, 2]}''" "''application/json''" "idle () :: (unit, unit) world" "''text/csv''"]
  by simp



text \<open>
  C10. For every payload read as an object whose \<^verbatim>\<open>inputs\<close> field is a boolean, or an
  array (uniformly nested, of at most 128 dimensions) of booleans, possibly among
  numbers that have a double, \<^verbatim>\<open>input_fn\<close> does not fail: it returns the tensor of the
  entries, where \<^verbatim>\<open>true\<close> is cast as the integer \<open>1\<close> and \<^verbatim>\<open>false\<close> as the integer \<open>0\<close>.
\<close>

theorem input_fn_booleans:
  assumes "json_loads request_body = Inr (PyDict d)"
    and "map_of d (str ''inputs'') = Some v"
    and "nested numeric_or_bool s v"
    and "length s \<le> MAX_DIMS"
  shows "\<exists>t. fst (input_fn request_body request_content_type w) = Inr t
           \<and> shape t = s
           \<and> map Some (elems t) = map cast_bfloat16 (leaves v)
           \<and> cast_bfloat16 (PyBool True) = cast_bfloat16 (PyInt 1)
           \<and> cast_bfloat16 (PyBool False) = cast_bfloat16 (PyInt 0)"
proof -
  have n: "nested castable s v"
    using assms(3) numeric_or_bool_castable by (rule nested_mono)
  have b: "cast_bfloat16 (PyBool True) = cast_bfloat16 (PyInt 1)"
    "cast_bfloat16 (PyBool False) = cast_bfloat16 (PyInt 0)"
    by (simp_all add: cast_bfloat16_def fits_double_def)
  have "fst (input_fn request_body request_content_type w)
      = Inr \<lparr>shape = s, elems = map (the \<circ> cast_bfloat16) (leaves v)\<rparr>"
    by (simp add: input_fn_result [OF assms(1,2)] torch_tensor_nested [OF n assms(4)])
  moreover have "map Some (map (the \<circ> cast_bfloat16) (leaves v)) = map cast_bfloat16 (leaves v)"
    using nested_leaves_castable [OF n] by (rule castable_the)
  ultimately show ?thesis using b by simp
qed

theorem input_fn_booleans_witness:
  "json_loads ''{\"inputs\": [true, false]}''
     = Inr (PyDict [(str ''inputs'', PyList [PyBool True, PyBool False])])
   \<and> nested numeric_or_bool [2] (PyList [PyBool True, PyBool False])
   \<and> fst (input_fn ''{\"inputs\": [true, false]}'' ''application/json''
            (idle () :: (unit, unit) world))
     = Inr \<lparr>shape = [2], elems = [BFloat16 (FloatOfInt 1), BFloat16 (FloatOfInt 0)]\<rparr>"
proof -
  let ?v = "PyList [PyBool True, PyBool False]"
  have h1: "json_loads ''{\"inputs\": [true, false]}'' = Inr (PyDict [(str ''inputs'', ?v)])"
    by code_simp
  have h2: "map_of [(str ''inputs'', ?v)] (str ''inputs'') = Some ?v"
    by simp
  have h3: "nested numeric_or_bool [2] ?v"
    by (simp add: numeric_or_bool_def)
  have h4: "length [2 :: nat] \<le> MAX_DIMS"
    by (simp add: MAX_DIMS_def)
  from input_fn_booleans [OF h1 h2 h3 h4, of "''application/json''"
      "idle () :: (unit, unit) world"]
  obtain t where t: "fst (input_fn ''{\"inputs\": [true, false]}'' ''application/json''
                (idle () :: (unit, unit) world)) = Inr t"
    "shape t = [2]" "map Some (elems t) = map cast_bfloat16 (leaves ?v)"
    by blast
  from t(3) have "elems t = [BFloat16 (FloatOfInt 1), BFloat16 (FloatOfInt 0)]"
    by (auto simp: cast_bfloat16_def map_eq_Cons_conv)
  with t(2) have "t = \<lparr>shape = [2], elems = [BFloat16 (FloatOfInt 1), BFloat16 (FloatOfInt 0)]\<rparr>"
    by (cases t) simp
  with t(1) h1 h3 show ?thesis by simp
qed

section \<open>The Predictor: \<^verbatim>\<open>predict_fn\<close>\<close>

text \<open>
  C2. For every context \<open>T\<close>, every model object and every state, \<^verbatim>\<open>predict_fn\<close> calls
  the \<^verbatim>\<open>predict\<close> method exactly once, with context \<open>T\<close>, prediction length 12 and 20
  samples, and returns what that call returned (its value, or its exception), unchanged;
  the model object is left as the call left it.
\<close>

theorem predict_fn_calls_once:
  "fst (predict_fn T m w)
     = fst (m \<lparr>context' = T, prediction_length = 12, num_samples = 20\<rparr> (model_state w))
   \<and> predict_calls (snd (predict_fn T m w))
     = predict_calls w @ [\<lparr>context' = T, prediction_length = 12, num_samples = 20\<rparr>]
   \<and> model_state (snd (predict_fn T m w))
     = snd (m \<lparr>context' = T, prediction_length = 12, num_samples = 20\<rparr> (model_state w))
   \<and> logged (snd (predict_fn T m w)) = logged w @ [''Running predict_fn'']"
  by (simp add: predict_fn_def call_predict_def logger_info_def Let_def
      split: prod.splits sum.splits)

theorem predict_fn_calls_once_witness:
  "fst (predict_fn [1, 2, 3 :: int]
          (\<lambda>kwargs n. (Inr (replicate (nat (prediction_length kwargs)) (4 :: int)) :: string + int list,
                        Suc n))
          (idle 0))
     = Inr (replicate 12 4)
   \<and> predict_calls (snd (predict_fn [1, 2, 3 :: int]
          (\<lambda>kwargs n. (Inr (replicate (nat (prediction_length kwargs)) (4 :: int)) :: string + int list,
                        Suc n))
          (idle 0)))
     = [\<lparr>context' = [1, 2, 3], prediction_length = 12, num_samples = 20\<rparr>]"
  using predict_fn_calls_once [of "[1, 2, 3 :: int]"
      "\<lambda>kwargs n. (Inr (replicate (nat (prediction_length kwargs)) (4 :: int)) :: string + int list,
                    Suc n)"
      "idle 0"]
  by (simp add: idle_def)

text \<open>
  C7. For every context and every model object whose \<^verbatim>\<open>predict\<close> method raises \<open>e\<close> on
  this call, \<^verbatim>\<open>predict_fn\<close> raises exactly \<open>e\<close>: it returns no value, and the method has
  been called once, not again.
\<close>

theorem predict_fn_propagates:
  assumes "fst (m \<lparr>context' = T, prediction_length = 12, num_samples = 20\<rparr> (model_state w)) = Inl e"
  shows "fst (predict_fn T m w) = Inl e
   \<and> predict_calls (snd (predict_fn T m w))
     = predict_calls w @ [\<lparr>context' = T, prediction_length = 12, num_samples = 20\<rparr>]"
  using assms
  by (cases "m \<lparr>context' = T, prediction_length = 12, num_samples = 20\<rparr> (model_state w)")
     (simp add: predict_fn_def call_predict_def logger_info_def Let_def)

theorem predict_fn_propagates_witness:
  "fst (predict_fn [1, 2, 3 :: int]
          (\<lambda>kwargs n. (Inl ''shape mismatch'' :: string + int list, Suc n))
          (idle 0))
     = Inl ''shape mismatch''
   \<and> predict_calls (snd (predict_fn [1, 2, 3 :: int]
          (\<lambda>kwargs n. (Inl ''shape mismatch'' :: string + int list, Suc n))
          (idle 0)))
     = [\<lparr>context' = [1, 2, 3], prediction_length = 12, num_samples = 20\<rparr>]"
  using predict_fn_propagates [of
      "\<lambda>kwargs n. (Inl ''shape mismatch'' :: string + int list, Suc n)"
      "[1, 2, 3 :: int]" "idle 0" "''shape mismatch''"]
  by (simp add: idle_def)

section \<open>The Responder: \<^verbatim>\<open>output_fn\<close>\<close>

text \<open>
  C5. For every prediction result \<open>R\<close> and every content type, \<^verbatim>\<open>output_fn\<close> returns
  \<open>R\<close> itself; its only effect is its line in the log.
\<close>

theorem output_fn_identity:
  "output_fn R content_type w = (R, w\<lparr>logged := logged w @ [''Running output_fn'']\<rparr>)"
  by (simp add: output_fn_def logger_info_def)

theorem output_fn_identity_witness:
  "fst (output_fn (replicate 12 (4 :: int)) ''application/json'' (idle () :: (unit, unit) world))
     = replicate 12 4"
  using output_fn_identity [of "replicate 12 (4 :: int)" "''application/json''"
      "idle () :: (unit, unit) world"]
  by simp

end
